theory Spec2Isabelle
  imports Complex_Main "HOL-Library.AList"
begin

section \<open>Data model\<close>

text \<open>
  The values that \<^verbatim>\<open>json.load\<close> and \<^verbatim>\<open>yaml.safe_load\<close> build from a plain document:
  \<^verbatim>\<open>None\<close>, booleans, unbounded integers, floats, strings, lists and dicts. A dict is an
  association list in insertion order; its keys are values themselves, since YAML allows
  keys that are not strings. A finite float is the real number it denotes (the program
  only ever tests a float for being zero). The records the program builds and writes
  are Python dicts and lists too, so they are values of the same type.
\<close>

datatype pyval =
    PNone
  | PBool bool
  | PInt int
  | PFloat real
  | PStr string
  | PList "pyval list"
  | PDict "(pyval \<times> pyval) list"

text \<open>The exceptions that can leave the program; \<open>ParseError\<close> and \<open>OSError\<close> come from
  the parsers and from \<^verbatim>\<open>open\<close>.\<close>

datatype py_error = AttributeError | TypeError | IndexError | KeyError | ParseError | OSError

text \<open>Python's truth value of an object (\<^verbatim>\<open>bool(x)\<close>).\<close>

fun truthy :: "pyval \<Rightarrow> bool" where
  "truthy PNone = False"
| "truthy (PBool b) = b"
| "truthy (PInt i) = (i \<noteq> 0)"
| "truthy (PFloat r) = (r \<noteq> 0)"
| "truthy (PStr s) = (s \<noteq> [])"
| "truthy (PList xs) = (xs \<noteq> [])"
| "truthy (PDict kvs) = (kvs \<noteq> [])"

text \<open>\<^verbatim>\<open>a or b\<close> on values.\<close>

definition py_or :: "pyval \<Rightarrow> pyval \<Rightarrow> pyval" where
  "py_or a b = (if truthy a then a else b)"

text \<open>\<^verbatim>\<open>d[0]\<close> on the elements of a list: raises \<^verbatim>\<open>IndexError\<close> when there is none.\<close>

fun list_index0 :: "pyval list \<Rightarrow> py_error + pyval" where
  "list_index0 [] = Inl IndexError"
| "list_index0 (x # xs) = Inr x"

text \<open>\<^verbatim>\<open>d.get(key)\<close> and \<^verbatim>\<open>d.get(key, default)\<close> on the items of a dict, for a string key.\<close>

definition dict_get_default :: "(pyval \<times> pyval) list \<Rightarrow> string \<Rightarrow> pyval \<Rightarrow> pyval" where
  "dict_get_default kvs key dflt =
     (case map_of kvs (PStr key) of None \<Rightarrow> dflt | Some v \<Rightarrow> v)"

definition dict_get :: "(pyval \<times> pyval) list \<Rightarrow> string \<Rightarrow> pyval" where
  "dict_get kvs key = dict_get_default kvs key PNone"

text \<open>\<^verbatim>\<open>x.get(...)\<close> on an arbitrary object: only a dict has the method.\<close>

fun py_get_default :: "pyval \<Rightarrow> string \<Rightarrow> pyval \<Rightarrow> py_error + pyval" where
  "py_get_default (PDict kvs) key dflt = Inr (dict_get_default kvs key dflt)"
| "py_get_default v key dflt = Inl AttributeError"

text \<open>\<^verbatim>\<open>d[key]\<close> on a dict, for a string key.\<close>

definition dict_getitem :: "(pyval \<times> pyval) list \<Rightarrow> string \<Rightarrow> py_error + pyval" where
  "dict_getitem kvs key =
     (case map_of kvs (PStr key) of None \<Rightarrow> Inl KeyError | Some v \<Rightarrow> Inr v)"

text \<open>\<^verbatim>\<open>d.update(other)\<close>: each item of \<open>other\<close> replaces the value of its key in place, or
  is appended.\<close>

definition dict_update :: "(pyval \<times> pyval) list \<Rightarrow> (pyval \<times> pyval) list \<Rightarrow> (pyval \<times> pyval) list" where
  "dict_update d other = foldl (\<lambda>acc kv. AList.update (fst kv) (snd kv) acc) d other"

text \<open>The elements that \<^verbatim>\<open>for entry in graph\<close> visits: a list gives its elements, a dict
  its keys, a string its characters; nothing else that a parser returns is iterable.\<close>

fun py_iter :: "pyval \<Rightarrow> py_error + pyval list" where
  "py_iter (PList xs) = Inr xs"
| "py_iter (PDict kvs) = Inr (map fst kvs)"
| "py_iter (PStr s) = Inr (map (\<lambda>c. PStr [c]) s)"
| "py_iter v = Inl TypeError"

section \<open>Mapping tables\<close>

text \<open>A mapping table gives each output field either a path (a tuple of keys) or a
  nested table.\<close>

datatype mapping = Path "string list" | Group "(string \<times> mapping) list"

type_synonym mapping_table = "(string \<times> mapping) list"

definition SUMMARY_DATA_KEY_MAPPINGS :: "(string \<times> mapping_table) list" where
  "SUMMARY_DATA_KEY_MAPPINGS =
    [(''bioconda'',
        [(''name'', Path [''package'', ''name'']),
         (''version'', Path [''package'', ''version'']),
         (''license'', Path [''about'', ''license'']),
         (''summary'', Path [''about'', ''summary''])]),
     (''biotools'',
        [(''license'', Path [''license'']),
         (''summary'', Path [''description'']),
         (''addition_date'', Path [''additionDate'']),
         (''last_update_date'', Path [''lastUpdate'']),
         (''version'', Path [''version''])]),
     (''bioschemas'',
        [(''name'', Path [''sc:name'']),
         (''license'', Path [''sc:license'']),
         (''version'', Path [''sc:softwareVersion''])]),
     (''galaxy'',
        [(''summary'', Path [''Description'']),
         (''edam_topics'', Path [''EDAM_topics''])]),
     (''biocontainers'',
        [(''name'', Path [''name'']),
         (''license'', Path [''license'']),
         (''summary'', Path [''description''])])]"

definition PAGE_DATA_KEY_MAPPINGS :: "(string \<times> mapping_table) list" where
  "PAGE_DATA_KEY_MAPPINGS =
    [(''bioconda'',
        [(''name'', Path [''package'', ''name'']),
         (''version'', Path [''package'', ''version'']),
         (''home'', Path [''about'', ''home'']),
         (''documentation'', Path [''about'', ''doc_url'']),
         (''license'', Path [''about'', ''license'']),
         (''summary'', Path [''about'', ''summary'']),
         (''identifiers'', Path [''extra'', ''identifiers''])]),
     (''biocontainers'',
        [(''name'', Path [''name'']),
         (''identifiers'', Path [''identifiers'']),
         (''license'', Path [''license'']),
         (''summary'', Path [''description''])]),
     (''biotools'',
        [(''id'', Path [''biotoolsID'']),
         (''home'', Path [''homepage'']),
         (''license'', Path [''license'']),
         (''summary'', Path [''description'']),
         (''addition_date'', Path [''additionDate'']),
         (''last_update_date'', Path [''lastUpdate'']),
         (''tool_type'', Path [''toolType'']),
         (''version'', Path [''version''])]),
     (''bioschemas'',
        [(''name'', Path [''sc:name'']),
         (''home'', Path [''@id'']),
         (''license'', Path [''sc:license'']),
         (''version'', Path [''sc:softwareVersion'']),
         (''summary'', Path [''sc:description'']),
         (''tool_type'', Path [''@type''])]),
     (''galaxy'',
        [(''first_commit'', Path [''Suite_first_commit_date'']),
         (''conda_name'', Path [''Suite_conda_package'']),
         (''conda_version'', Path [''Latest_suite_conda_package_version'']),
         (''summary'', Path [''Description'']),
         (''edam_operations'', Path [''EDAM_operations'']),
         (''edam_topics'', Path [''EDAM_topics'']),
         (''toolshed_categories'', Path [''ToolShed_categories'']),
         (''toolshed_id'', Path [''Suite_ID'']),
         (''users_5_years'', Path [''Suite_users_(last_5_years)_on_main_servers'']),
         (''users_all_time'', Path [''Suite_users_on_main_servers'']),
         (''usage_5_years'', Path [''Suite_runs_(last_5_years)_on_main_servers'']),
         (''usage_all_time'', Path [''Suite_runs_on_main_servers'']),
         (''bio_tools_summary'', Path [''bio.tool_description'']),
         (''bio_tools_ids'', Path [''bio.tool_ID'']),
         (''bio_tools_name'', Path [''bio.tool_name'']),
         (''related_tutorials'', Path [''Related_Tutorials'']),
         (''related_workflows'', Path [''Related_Workflows'']),
         (''tool_ids'', Path [''Tool_IDs'']),
         (''no_of_tools'', Group
            [(''eu'', Path [''Number_of_tools_on_UseGalaxy.eu'']),
             (''org'', Path [''Number_of_tools_on_UseGalaxy.org_(Main)'']),
             (''au'', Path [''Number_of_tools_on_UseGalaxy.org.au'']),
             (''be'', Path [''Number_of_tools_on_UseGalaxy.be'']),
             (''cz'', Path [''Number_of_tools_on_UseGalaxy.cz'']),
             (''fr'', Path [''Number_of_tools_on_UseGalaxy.fr'']),
             (''no'', Path [''Number_of_tools_on_UseGalaxy.no''])])])]"

section \<open>Path extractor and mapping evaluator\<close>

text \<open>
  \<^verbatim>\<open>traverse_keys(d, *keys)\<close>: one loop iteration per key. A list is replaced by its first
  element, or by \<^verbatim>\<open>None\<close> when it is empty (\<^verbatim>\<open>d[0] if d else None\<close>); then a dict is
  replaced by \<^verbatim>\<open>d.get(key)\<close>, and anything else returns \<^verbatim>\<open>None\<close> at once.
\<close>

fun traverse_keys :: "pyval \<Rightarrow> string list \<Rightarrow> py_error + pyval" where
  "traverse_keys d [] = Inr d"
| "traverse_keys d (key # keys) =
     (case (case d of
              PList xs \<Rightarrow> (if truthy d then list_index0 xs else Inr PNone)
            | _ \<Rightarrow> Inr d) of
        Inl e \<Rightarrow> Inl e
      | Inr d1 \<Rightarrow>
          (case d1 of
             PDict kvs \<Rightarrow> traverse_keys (dict_get kvs key) keys
           | _ \<Rightarrow> Inr PNone))"

text \<open>
  \<^verbatim>\<open>extract(d, mappings)\<close>, here \<open>extract_inner\<close>: the dict comprehension over the items of the table, in the
  table's order; a nested table recurses, a path is resolved and \<^verbatim>\<open>or None\<close> applied.
\<close>

fun extract_inner :: "pyval \<Rightarrow> mapping_table \<Rightarrow> py_error + (pyval \<times> pyval) list" where
  "extract_inner d [] = Inr []"
| "extract_inner d ((k, Group sub) # ms) =
     (case extract_inner d sub of
        Inl e \<Rightarrow> Inl e
      | Inr inner \<Rightarrow>
          (case extract_inner d ms of
             Inl e \<Rightarrow> Inl e
           | Inr rest \<Rightarrow> Inr ((PStr k, PDict inner) # rest)))"
| "extract_inner d ((k, Path keys) # ms) =
     (case traverse_keys d keys of
        Inl e \<Rightarrow> Inl e
      | Inr r \<Rightarrow>
          (case extract_inner d ms of
             Inl e \<Rightarrow> Inl e
           | Inr rest \<Rightarrow> Inr ((PStr k, py_or r PNone) # rest)))"

text \<open>\<^verbatim>\<open>key_mappings.get(tool_type, {})\<close>.\<close>

definition key_mappings_get :: "(string \<times> mapping_table) list \<Rightarrow> string \<Rightarrow> mapping_table" where
  "key_mappings_get key_mappings tool_type =
     (case map_of key_mappings tool_type of None \<Rightarrow> [] | Some t \<Rightarrow> t)"

section \<open>Source adapter\<close>

text \<open>
  \<^verbatim>\<open>next((entry for entry in graph if entry.get("@type") == "sc:SoftwareApplication"), None)\<close>
  over the elements the iteration visits: the generator stops at the first match, and
  calling \<^verbatim>\<open>.get\<close> on an entry that is not a dict raises.
\<close>

fun next_software_application :: "pyval list \<Rightarrow> py_error + pyval" where
  "next_software_application [] = Inr PNone"
| "next_software_application (entry # rest) =
     (case py_get_default entry ''@type'' PNone of
        Inl e \<Rightarrow> Inl e
      | Inr t \<Rightarrow>
          (if t = PStr ''sc:SoftwareApplication'' then Inr entry
           else next_software_application rest))"

text \<open>\<^verbatim>\<open>extract_data(tool_type, data, key_mappings)\<close>; the result is the returned dict, as
  its items.\<close>

definition extract_data ::
  "string \<Rightarrow> pyval \<Rightarrow> (string \<times> mapping_table) list \<Rightarrow> py_error + (pyval \<times> pyval) list" where
  "extract_data tool_type data key_mappings =
     (let mappings = key_mappings_get key_mappings tool_type in
      if tool_type = ''bioschemas'' then
        (case py_get_default data ''@graph'' (PList []) of
           Inl e \<Rightarrow> Inl e
         | Inr graph \<Rightarrow>
             (case py_iter graph of
                Inl e \<Rightarrow> Inl e
              | Inr entries \<Rightarrow>
                  (case next_software_application entries of
                     Inl e \<Rightarrow> Inl e
                   | Inr software_data \<Rightarrow>
                       (if truthy software_data then
                          (case extract_inner software_data mappings of
                             Inl e \<Rightarrow> Inl e
                           | Inr block \<Rightarrow> Inr [(PStr tool_type, PDict block)])
                        else Inr []))))
      else
        (case extract_inner data mappings of
           Inl e \<Rightarrow> Inl e
         | Inr block \<Rightarrow> Inr [(PStr tool_type, PDict block)]))"

section \<open>Paths and the outside world\<close>

text \<open>
  The three functions of \<^verbatim>\<open>os.path\<close> the program calls, for POSIX paths.
  \<^verbatim>\<open>basename\<close> is what follows the last slash. \<^verbatim>\<open>join\<close> restarts at a component
  that begins with a slash and otherwise puts one slash between the two parts.
  \<^verbatim>\<open>splitext(p)[1]\<close> is the part of the base name from its last dot on, and is empty
  when there is no dot or when only dots come before it.
\<close>

definition basename :: "string \<Rightarrow> string" where
  "basename p = rev (takeWhile (\<lambda>c. c \<noteq> CHR ''/'') (rev p))"

definition path_join :: "string \<Rightarrow> string \<Rightarrow> string" where
  "path_join a b =
     (if take 1 b = ''/'' then b
      else if a = [] \<or> last a = CHR ''/'' then a @ b
      else a @ ''/'' @ b)"

definition splitext_ext :: "string \<Rightarrow> string" where
  "splitext_ext p =
     (let b = basename p;
          suffix = rev (takeWhile (\<lambda>c. c \<noteq> CHR ''.'') (rev b));
          stem = take (length b - length suffix - 1) b
      in if CHR ''.'' \<in> set b \<and> list_ex (\<lambda>c. c \<noteq> CHR ''.'') stem
         then CHR ''.'' # suffix else [])"

text \<open>
  What the program reads from outside: whether a path exists, and what each parser
  returns for the file at a path (a value, or the exception it raises).
\<close>

record world =
  path_exists :: "string \<Rightarrow> bool"
  parse_yaml :: "string \<Rightarrow> py_error + pyval"
  parse_json :: "string \<Rightarrow> py_error + pyval"

text \<open>The choice of the parser by the extension of the path (the conditional expression
  that assigns \<^verbatim>\<open>data\<close>).\<close>

definition load_data :: "world \<Rightarrow> string \<Rightarrow> py_error + pyval" where
  "load_data w file_path =
     (let ext = splitext_ext file_path in
      if ext \<in> set [''.yaml'', ''.yml''] then parse_yaml w file_path
      else if ext \<in> set [''.json'', ''.jsonld''] then parse_json w file_path
      else Inr PNone)"

section \<open>Folder aggregator\<close>

definition file_patterns :: "string \<Rightarrow> (string \<times> string) list" where
  "file_patterns folder_name =
     [(''bioconda_'' @ folder_name @ ''.yaml'', ''bioconda''),
      (folder_name @ ''.biocontainers.yaml'', ''biocontainers''),
      (folder_name @ ''.biotools.json'', ''biotools''),
      (folder_name @ ''.bioschemas.jsonld'', ''bioschemas''),
      (folder_name @ ''.galaxy.json'', ''galaxy'')]"

text \<open>\<^verbatim>\<open>contents.add(tool_type)\<close>. The set is kept as a list without repetition, in the
  order of insertion; Python leaves the order of \<^verbatim>\<open>list(contents)\<close> open, so nothing
  below depends on it.\<close>

definition set_add :: "string list \<Rightarrow> string \<Rightarrow> string list" where
  "set_add contents x = (if x \<in> set contents then contents else contents @ [x])"

text \<open>\<^verbatim>\<open>{k: v for k, v in d.items() if v}\<close>.\<close>

definition truthy_items :: "(pyval \<times> pyval) list \<Rightarrow> (pyval \<times> pyval) list" where
  "truthy_items d = filter (\<lambda>kv. truthy (snd kv)) d"

text \<open>The main loop of \<^verbatim>\<open>process_files_in_folder\<close> over the file patterns; the state is
  \<^verbatim>\<open>(contents, fetched_metadata, extracted_page_metadata)\<close>.\<close>

type_synonym folder_state = "string list \<times> (pyval \<times> pyval) list \<times> (pyval \<times> pyval) list"

fun process_loop ::
  "world \<Rightarrow> string \<Rightarrow> (string \<times> string) list \<Rightarrow> folder_state \<Rightarrow> py_error + folder_state" where
  "process_loop w folder_path [] st = Inr st"
| "process_loop w folder_path ((file_name, tool_type) # rest)
       (contents, fetched_metadata, extracted_page_metadata) =
     (let file_path = path_join folder_path file_name in
      if \<not> path_exists w file_path then
        process_loop w folder_path rest (contents, fetched_metadata, extracted_page_metadata)
      else
        (let contents1 = set_add contents tool_type in
         case load_data w file_path of
           Inl e \<Rightarrow> Inl e
         | Inr data \<Rightarrow>
             (if data = PNone then
                process_loop w folder_path rest
                  (contents1, fetched_metadata, extracted_page_metadata)
              else
                (case extract_data tool_type data SUMMARY_DATA_KEY_MAPPINGS of
                   Inl e \<Rightarrow> Inl e
                 | Inr extracted_data \<Rightarrow>
                     (case extract_data tool_type data PAGE_DATA_KEY_MAPPINGS of
                        Inl e \<Rightarrow> Inl e
                      | Inr page_data \<Rightarrow>
                          process_loop w folder_path rest
                            (contents1,
                             dict_update fetched_metadata (truthy_items extracted_data),
                             dict_update extracted_page_metadata (truthy_items page_data)))))))"

text \<open>\<^verbatim>\<open>any(os.path.exists(os.path.join(folder_path, file_name)) for file_name, _ in file_patterns)\<close>.\<close>

definition any_file_exists :: "world \<Rightarrow> string \<Rightarrow> (string \<times> string) list \<Rightarrow> bool" where
  "any_file_exists w folder_path patterns =
     list_ex (\<lambda>fp. path_exists w (path_join folder_path (fst fp))) patterns"

text \<open>\<^verbatim>\<open>process_files_in_folder(folder_path)\<close>: the pair of the summary record and the page
  record, both \<^verbatim>\<open>{}\<close> when none of the five files exists.\<close>

definition process_files_in_folder :: "world \<Rightarrow> string \<Rightarrow> py_error + (pyval \<times> pyval)" where
  "process_files_in_folder w folder_path =
     (let folder_name = basename folder_path;
          patterns = file_patterns folder_name
      in if \<not> any_file_exists w folder_path patterns then
           Inr (PDict [], PDict [])
         else
           (case process_loop w folder_path patterns ([], [], []) of
              Inl e \<Rightarrow> Inl e
            | Inr (contents, fetched_metadata, extracted_page_metadata) \<Rightarrow>
                Inr (PDict [(PStr ''tool_name'', PStr folder_name),
                            (PStr ''contents'', PList (map PStr contents)),
                            (PStr ''fetched_metadata'', PDict fetched_metadata)],
                     PDict [(PStr ''tool_name'', PStr folder_name),
                            (PStr ''contents'', PList (map PStr contents)),
                            (PStr ''page_metadata'', PDict extracted_page_metadata)])))"

section \<open>Run driver\<close>

text \<open>\<^verbatim>\<open>page_metadata['tool_name']\<close>: subscription with a string raises \<^verbatim>\<open>KeyError\<close> on a
  dict without the key and \<^verbatim>\<open>TypeError\<close> on the other values.\<close>

fun py_getitem :: "pyval \<Rightarrow> string \<Rightarrow> py_error + pyval" where
  "py_getitem (PDict kvs) key = dict_getitem kvs key"
| "py_getitem v key = Inl TypeError"

text \<open>The files \<^verbatim>\<open>save_metadata\<close> is asked to write: \<open>Tools_json v\<close> stands for the name
  \<^verbatim>\<open>f"tools/{v}.json"\<close>, \<open>Combined_metadata_json\<close> for \<^verbatim>\<open>"combined_metadata.json"\<close>.\<close>

datatype output_file = Tools_json pyval | Combined_metadata_json

type_synonym run_state = "pyval list \<times> (output_file \<times> pyval) list"

text \<open>The loop of \<^verbatim>\<open>main\<close> over the directories that \<^verbatim>\<open>os.walk(data_dir)\<close> yields (the
  loop variable \<^verbatim>\<open>root\<close>, here \<open>dir\<close>); the state is \<^verbatim>\<open>combined_metadata\<close> and the files
  written so far.\<close>

fun main_loop :: "world \<Rightarrow> string \<Rightarrow> string list \<Rightarrow> run_state \<Rightarrow> py_error + run_state" where
  "main_loop w data_dir [] st = Inr st"
| "main_loop w data_dir (dir # dirs) (combined_metadata, saved) =
     (if dir \<noteq> data_dir then
        (case process_files_in_folder w dir of
           Inl e \<Rightarrow> Inl e
         | Inr (metadata, page_metadata) \<Rightarrow>
             (if \<not> truthy metadata \<or> \<not> truthy page_metadata then
                main_loop w data_dir dirs (combined_metadata, saved)
              else
                (case py_getitem page_metadata ''tool_name'' of
                   Inl e \<Rightarrow> Inl e
                 | Inr tool_name \<Rightarrow>
                     main_loop w data_dir dirs
                       (combined_metadata @ [metadata],
                        saved @ [(Tools_json tool_name, page_metadata)]))))
      else main_loop w data_dir dirs (combined_metadata, saved))"

text \<open>\<^verbatim>\<open>main()\<close>, given the directories of the walk: the files written, in order, the
  combined list last.\<close>

definition main :: "world \<Rightarrow> string \<Rightarrow> string list \<Rightarrow> py_error + (output_file \<times> pyval) list" where
  "main w data_dir dirs =
     (case main_loop w data_dir dirs ([], []) of
        Inl e \<Rightarrow> Inl e
      | Inr (combined_metadata, saved) \<Rightarrow>
          Inr (saved @ [(Combined_metadata_json, PList combined_metadata)]))"

section \<open>Notions used in the statements\<close>

text \<open>A scalar is a value that is neither a list nor a dict.\<close>

fun is_scalar :: "pyval \<Rightarrow> bool" where
  "is_scalar (PList xs) = False"
| "is_scalar (PDict kvs) = False"
| "is_scalar v = True"

text \<open>The paths at the leaves of a table, and the block of a table in which every leaf
  is \<^verbatim>\<open>None\<close> (a nested table keeps its keys, around an inner block of the same kind).\<close>

fun leaf_paths :: "mapping_table \<Rightarrow> string list list" where
  "leaf_paths [] = []"
| "leaf_paths ((k, Group sub) # ms) = leaf_paths sub @ leaf_paths ms"
| "leaf_paths ((k, Path keys) # ms) = keys # leaf_paths ms"

fun null_block :: "mapping_table \<Rightarrow> (pyval \<times> pyval) list" where
  "null_block [] = []"
| "null_block ((k, Group sub) # ms) = (PStr k, PDict (null_block sub)) # null_block ms"
| "null_block ((k, Path keys) # ms) = (PStr k, PNone) # null_block ms"

text \<open>A record holds no data for a table when every leaf path resolves to a falsy value.\<close>

definition resolves_nothing :: "pyval \<Rightarrow> mapping_table \<Rightarrow> bool" where
  "resolves_nothing d ms =
     list_all (\<lambda>keys. case traverse_keys d keys of Inl e \<Rightarrow> False | Inr v \<Rightarrow> \<not> truthy v)
       (leaf_paths ms)"


section \<open>Example folders\<close>

text \<open>The world in which exactly the listed paths exist, each with the result its parser
  gives.\<close>

definition world_of_files :: "(string \<times> (py_error + pyval)) list \<Rightarrow> world" where
  "world_of_files files =
     \<lparr>path_exists = (\<lambda>p. map_of files p \<noteq> None),
      parse_yaml = (\<lambda>p. case map_of files p of None \<Rightarrow> Inl OSError | Some r \<Rightarrow> r),
      parse_json = (\<lambda>p. case map_of files p of None \<Rightarrow> Inl OSError | Some r \<Rightarrow> r)\<rparr>"

text \<open>Scenario A: the folder \<^verbatim>\<open>foo\<close> holds only \<^verbatim>\<open>foo.biotools.json\<close> with the content
  \<^verbatim>\<open>{"license":"MIT","description":"x","version":"1.0"}\<close>.\<close>

definition scenario_A :: world where
  "scenario_A = world_of_files
     [(''content/data/foo/foo.biotools.json'',
       Inr (PDict [(PStr ''license'', PStr ''MIT''),
                   (PStr ''description'', PStr ''x''),
                   (PStr ''version'', PStr ''1.0'')]))]"

text \<open>The folder \<^verbatim>\<open>foo\<close> holds only \<^verbatim>\<open>foo.biotools.json\<close> with the content \<^verbatim>\<open>null\<close>.\<close>

definition null_biotools :: world where
  "null_biotools = world_of_files [(''content/data/foo/foo.biotools.json'', Inr PNone)]"









section \<open>The path extractor\<close>

lemma traverse_keys_returns: "\<exists>v. traverse_keys d keys = Inr v"
proof (induction keys arbitrary: d)
  case Nil
  show ?case by simp
next
  case (Cons key keys)
  show ?case
  proof (cases d)
    case (PList xs)
    then show ?thesis using Cons.IH
      by (cases xs) (auto split: pyval.splits)
  next
    case (PDict kvs)
    then show ?thesis using Cons.IH by simp
  qed simp_all
qed

text \<open>Resolving a path in two parts: the second part starts from what the first gave.\<close>

lemma traverse_keys_append:
  "traverse_keys d (p1 @ p2) =
     (case traverse_keys d p1 of Inl e \<Rightarrow> Inl e | Inr v \<Rightarrow> traverse_keys v p2)"
proof (induction p1 arbitrary: d)
  case Nil
  show ?case by simp
next
  case (Cons key keys)
  have none: "traverse_keys PNone p2 = Inr PNone" by (cases p2) simp_all
  show ?case
  proof (cases d)
    case (PList xs)
    then show ?thesis using Cons.IH none
      by (cases xs) (auto split: pyval.splits)
  next
    case (PDict kvs)
    then show ?thesis using Cons.IH by simp
  qed (simp_all add: none)
qed

lemma traverse_keys_stuck:
  "is_scalar v \<or> v = PList [] \<Longrightarrow> p \<noteq> [] \<Longrightarrow> traverse_keys v p = Inr PNone"
  by (cases p; cases v) auto

text \<open>
  C5. \<^verbatim>\<open>traverse_keys\<close> always returns and never raises: the only operation in it that
  can raise, \<^verbatim>\<open>d[0]\<close>, is guarded. Whenever a prefix \<open>p1\<close> of the path, with keys left
  after it, resolves to a scalar (\<^verbatim>\<open>None\<close>, the result of a missing key, is one) or to
  an empty list, the whole path resolves to \<^verbatim>\<open>None\<close>.
\<close>

theorem traverse_keys_total:
  "(\<exists>v. traverse_keys r (p1 @ p2) = Inr v) \<and>
   (p2 \<noteq> [] \<and> traverse_keys r p1 = Inr u \<and> (is_scalar u \<or> u = PList [])
      \<longrightarrow> traverse_keys r (p1 @ p2) = Inr PNone)"
  using traverse_keys_returns [of r "p1 @ p2"]
  by (auto simp: traverse_keys_append traverse_keys_stuck)

theorem traverse_keys_total_witness:
  "(traverse_keys (PDict [(PStr ''a'', PInt 1)]) [''a''] = Inr (PInt 1) \<and> is_scalar (PInt 1) \<and>
    traverse_keys (PDict [(PStr ''a'', PInt 1)]) ([''a''] @ [''b'']) = Inr PNone) \<and>
   (traverse_keys (PDict [(PStr ''a'', PInt 1)]) [''z''] = Inr PNone \<and> is_scalar PNone \<and>
    traverse_keys (PDict [(PStr ''a'', PInt 1)]) ([''z''] @ [''b'']) = Inr PNone) \<and>
   (traverse_keys (PDict [(PStr ''a'', PList [])]) [''a''] = Inr (PList []) \<and>
    traverse_keys (PDict [(PStr ''a'', PList [])]) ([''a''] @ [''b'']) = Inr PNone)"
proof -
  have h1: "traverse_keys (PDict [(PStr ''a'', PInt 1)]) [''a''] = Inr (PInt 1)"
    and h2: "traverse_keys (PDict [(PStr ''a'', PInt 1)]) [''z''] = Inr PNone"
    and h3: "traverse_keys (PDict [(PStr ''a'', PList [])]) [''a''] = Inr (PList [])"
    by (simp_all add: dict_get_def dict_get_default_def)
  show ?thesis
    using h1 h2 h3
      traverse_keys_total [of "PDict [(PStr ''a'', PInt 1)]" "[''a'']" "[''b'']" "PInt 1"]
      traverse_keys_total [of "PDict [(PStr ''a'', PInt 1)]" "[''z'']" "[''b'']" PNone]
      traverse_keys_total [of "PDict [(PStr ''a'', PList [])]" "[''a'']" "[''b'']" "PList []"]
    by simp
qed

text \<open>
  C6 as stated fails. The record \<^verbatim>\<open>[[{"a": 1}]]\<close> is a non-empty list; at the path
  \<^verbatim>\<open>("a",)\<close> it resolves to \<^verbatim>\<open>None\<close>, because only one list is unwrapped before the
  key is looked up, while its first element \<^verbatim>\<open>[{"a": 1}]\<close> resolves to \<open>1\<close>. At the
  empty path the empty list resolves to itself, not to \<^verbatim>\<open>None\<close>.
\<close>

theorem traverse_keys_head_counterexample:
  "traverse_keys (PList [PList [PDict [(PStr ''a'', PInt 1)]]]) [''a''] = Inr PNone \<and>
   traverse_keys (PList [PDict [(PStr ''a'', PInt 1)]]) [''a''] = Inr (PInt 1) \<and>
   traverse_keys (PList []) [] = Inr (PList [])"
  by (simp add: dict_get_def dict_get_default_def)

text \<open>
  C6, amended. For a path with at least one key: an empty list resolves to \<^verbatim>\<open>None\<close>; a
  non-empty list resolves as its first element does when that element is not itself a
  list, and to \<^verbatim>\<open>None\<close> when it is.
\<close>

theorem traverse_keys_head:
  "p \<noteq> [] \<Longrightarrow>
   traverse_keys (PList []) p = Inr PNone \<and>
   traverse_keys (PList (x # rest)) p =
     (case x of PList ys \<Rightarrow> Inr PNone | _ \<Rightarrow> traverse_keys x p)"
  by (cases p) (auto split: pyval.splits)

theorem traverse_keys_head_witness:
  "[''a''] \<noteq> ([] :: string list) \<and>
   traverse_keys (PList []) [''a''] = Inr PNone \<and>
   traverse_keys (PList [PDict [(PStr ''a'', PInt 1)], PInt 2]) [''a''] =
     traverse_keys (PDict [(PStr ''a'', PInt 1)]) [''a''] \<and>
   traverse_keys (PList [PList [PDict [(PStr ''a'', PInt 1)]], PInt 2]) [''a''] = Inr PNone"
proof -
  have ne: "[''a''] \<noteq> ([] :: string list)" by simp
  show ?thesis
    using traverse_keys_head [OF ne, of "PDict [(PStr ''a'', PInt 1)]" "[PInt 2]"]
      traverse_keys_head [OF ne, of "PList [PDict [(PStr ''a'', PInt 1)]]" "[PInt 2]"]
    by simp
qed

section \<open>The mapping evaluator\<close>

text \<open>The evaluator never raises, and its output has the keys of the table, in order.\<close>

lemma extract_inner_keys:
  "\<exists>out. extract_inner d ms = Inr out \<and> map fst out = map (\<lambda>km. PStr (fst km)) ms"
proof (induction d ms rule: extract_inner.induct)
  case (1 d)
  show ?case by simp
next
  case (2 d k sub ms)
  then show ?case by auto
next
  case (3 d k keys ms)
  then show ?case using traverse_keys_returns [of d keys] by auto
qed

lemma key_in_table: "(k, m) \<in> set ms \<Longrightarrow> k \<in> fst ` set ms"
  by force

lemma extract_inner_path:
  "extract_inner d ms = Inr out \<Longrightarrow> distinct (map fst ms) \<Longrightarrow> (k, Path keys) \<in> set ms \<Longrightarrow>
   traverse_keys d keys = Inr v \<Longrightarrow> map_of out (PStr k) = Some (py_or v PNone)"
proof (induction d ms arbitrary: out rule: extract_inner.induct)
  case (1 d)
  then show ?case by simp
next
  case (2 d k' sub ms)
  then show ?case by (auto split: sum.splits dest: key_in_table)
next
  case (3 d k' keys' ms)
  then show ?case by (auto split: sum.splits dest: key_in_table)
qed

lemma extract_inner_group:
  "extract_inner d ms = Inr out \<Longrightarrow> distinct (map fst ms) \<Longrightarrow> (k, Group sub) \<in> set ms \<Longrightarrow>
   \<exists>inner. extract_inner d sub = Inr inner \<and> map_of out (PStr k) = Some (PDict inner)"
proof (induction d ms arbitrary: out rule: extract_inner.induct)
  case (1 d)
  then show ?case by simp
next
  case (2 d k' sub' ms)
  then show ?case by (auto split: sum.splits dest: key_in_table)
next
  case (3 d k' keys' ms)
  then show ?case by (auto split: sum.splits dest: key_in_table)
qed

lemma extract_inner_null_block:
  "resolves_nothing d ms \<Longrightarrow> extract_inner d ms = Inr (null_block ms)"
proof (induction d ms rule: extract_inner.induct)
  case (1 d)
  show ?case by simp
next
  case (2 d k sub ms)
  then show ?case by (simp add: resolves_nothing_def)
next
  case (3 d k keys ms)
  then show ?case by (auto simp: resolves_nothing_def py_or_def split: sum.splits)
qed

text \<open>
  C8. For an entry of a table that is a path, the extracted record holds at its key the
  resolved value when that is truthy and \<^verbatim>\<open>None\<close> otherwise: a falsy result (\<^verbatim>\<open>None\<close>,
  an empty list, dict or string, zero, \<^verbatim>\<open>False\<close>) is never kept. The keys of a table,
  a Python dict, are distinct.
\<close>

theorem extract_inner_normalises_falsy:
  assumes "(k, Path keys) \<in> set mappings" and "distinct (map fst mappings)"
  shows "\<exists>out v. extract_inner d mappings = Inr out \<and> traverse_keys d keys = Inr v \<and>
           dict_getitem out k = Inr (if truthy v then v else PNone)"
proof -
  obtain out where out: "extract_inner d mappings = Inr out"
    using extract_inner_keys [of d mappings] by blast
  obtain v where v: "traverse_keys d keys = Inr v"
    using traverse_keys_returns [of d keys] by blast
  from extract_inner_path [OF out assms(2) assms(1) v]
  have "dict_getitem out k = Inr (if truthy v then v else PNone)"
    by (simp add: dict_getitem_def py_or_def)
  with out v show ?thesis by blast
qed

theorem extract_inner_normalises_falsy_witness:
  "(''summary'', Path [''description'']) \<in> set (key_mappings_get SUMMARY_DATA_KEY_MAPPINGS ''biotools'') \<and>
   distinct (map fst (key_mappings_get SUMMARY_DATA_KEY_MAPPINGS ''biotools'')) \<and>
   traverse_keys (PDict [(PStr ''description'', PStr ''''), (PStr ''version'', PInt 0)])
     [''description''] = Inr (PStr '''') \<and>
   (\<exists>out. extract_inner (PDict [(PStr ''description'', PStr ''''), (PStr ''version'', PInt 0)])
            (key_mappings_get SUMMARY_DATA_KEY_MAPPINGS ''biotools'') = Inr out \<and>
          dict_getitem out ''summary'' = Inr PNone)"
proof -
  have h1: "(''summary'', Path [''description'']) \<in>
              set (key_mappings_get SUMMARY_DATA_KEY_MAPPINGS ''biotools'')"
    and h2: "distinct (map fst (key_mappings_get SUMMARY_DATA_KEY_MAPPINGS ''biotools''))"
    by (simp_all add: key_mappings_get_def SUMMARY_DATA_KEY_MAPPINGS_def)
  have h3: "traverse_keys (PDict [(PStr ''description'', PStr ''''), (PStr ''version'', PInt 0)])
              [''description''] = Inr (PStr '''')"
    by (simp add: dict_get_def dict_get_default_def)
  show ?thesis
    using h1 h2 h3
      extract_inner_normalises_falsy [OF h1 h2,
        of "PDict [(PStr ''description'', PStr ''''), (PStr ''version'', PInt 0)]"]
    by auto
qed

text \<open>
  C9. For an entry of a table that is a nested table, the extracted record holds at its
  key an inner dict with exactly the child keys, in order; each child that is a path
  holds its resolved value or \<^verbatim>\<open>None\<close>; and when no child resolves to data the inner
  dict is still there, with every child \<^verbatim>\<open>None\<close>.
\<close>

theorem extract_inner_group_present:
  assumes "(k, Group sub) \<in> set mappings" and "distinct (map fst mappings)"
  shows "\<exists>out inner. extract_inner d mappings = Inr out \<and>
           dict_getitem out k = Inr (PDict inner) \<and>
           map fst inner = map (\<lambda>cm. PStr (fst cm)) sub \<and>
           (\<forall>c ckeys. (c, Path ckeys) \<in> set sub \<and> distinct (map fst sub) \<longrightarrow>
              (\<exists>v. traverse_keys d ckeys = Inr v \<and>
                   dict_getitem inner c = Inr (if truthy v then v else PNone))) \<and>
           (resolves_nothing d sub \<longrightarrow> inner = null_block sub)"
proof -
  obtain out where out: "extract_inner d mappings = Inr out"
    using extract_inner_keys [of d mappings] by blast
  from extract_inner_group [OF out assms(2) assms(1)]
  obtain inner where inner: "extract_inner d sub = Inr inner"
    and at_k: "map_of out (PStr k) = Some (PDict inner)" by blast
  have keys: "map fst inner = map (\<lambda>cm. PStr (fst cm)) sub"
    using extract_inner_keys [of d sub] inner by simp
  have children: "\<exists>v. traverse_keys d ckeys = Inr v \<and>
                      dict_getitem inner c = Inr (if truthy v then v else PNone)"
    if "(c, Path ckeys) \<in> set sub" and "distinct (map fst sub)" for c ckeys
  proof -
    obtain v where v: "traverse_keys d ckeys = Inr v"
      using traverse_keys_returns [of d ckeys] by blast
    from extract_inner_path [OF inner that(2) that(1) v] v show ?thesis
      by (auto simp: dict_getitem_def py_or_def)
  qed
  have nulls: "inner = null_block sub" if "resolves_nothing d sub"
    using extract_inner_null_block [OF that] inner by simp
  from out at_k keys children nulls show ?thesis
    by (auto simp: dict_getitem_def)
qed

theorem extract_inner_group_present_witness:
  "(''no_of_tools'', Group [(''eu'', Path [''Number_of_tools_on_UseGalaxy.eu'']),
             (''org'', Path [''Number_of_tools_on_UseGalaxy.org_(Main)'']),
             (''au'', Path [''Number_of_tools_on_UseGalaxy.org.au'']),
             (''be'', Path [''Number_of_tools_on_UseGalaxy.be'']),
             (''cz'', Path [''Number_of_tools_on_UseGalaxy.cz'']),
             (''fr'', Path [''Number_of_tools_on_UseGalaxy.fr'']),
             (''no'', Path [''Number_of_tools_on_UseGalaxy.no''])])
     \<in> set (key_mappings_get PAGE_DATA_KEY_MAPPINGS ''galaxy'') \<and>
   distinct (map fst (key_mappings_get PAGE_DATA_KEY_MAPPINGS ''galaxy'')) \<and>
   (\<exists>out. extract_inner (PDict [(PStr ''Description'', PStr ''x'')])
            (key_mappings_get PAGE_DATA_KEY_MAPPINGS ''galaxy'') = Inr out \<and>
          dict_getitem out ''no_of_tools'' =
            Inr (PDict [(PStr ''eu'', PNone), (PStr ''org'', PNone), (PStr ''au'', PNone),
                        (PStr ''be'', PNone), (PStr ''cz'', PNone), (PStr ''fr'', PNone),
                        (PStr ''no'', PNone)]))"
proof -
  let ?sub = "[(''eu'', Path [''Number_of_tools_on_UseGalaxy.eu'']),
             (''org'', Path [''Number_of_tools_on_UseGalaxy.org_(Main)'']),
             (''au'', Path [''Number_of_tools_on_UseGalaxy.org.au'']),
             (''be'', Path [''Number_of_tools_on_UseGalaxy.be'']),
             (''cz'', Path [''Number_of_tools_on_UseGalaxy.cz'']),
             (''fr'', Path [''Number_of_tools_on_UseGalaxy.fr'']),
             (''no'', Path [''Number_of_tools_on_UseGalaxy.no''])]"
  have h1: "(''no_of_tools'', Group ?sub) \<in> set (key_mappings_get PAGE_DATA_KEY_MAPPINGS ''galaxy'')"
    and h2: "distinct (map fst (key_mappings_get PAGE_DATA_KEY_MAPPINGS ''galaxy''))"
    by (simp_all add: key_mappings_get_def PAGE_DATA_KEY_MAPPINGS_def)
  have h3: "resolves_nothing (PDict [(PStr ''Description'', PStr ''x'')]) ?sub"
    by (simp add: resolves_nothing_def dict_get_def dict_get_default_def)
  have h4: "null_block ?sub = [(PStr ''eu'', PNone), (PStr ''org'', PNone), (PStr ''au'', PNone),
                        (PStr ''be'', PNone), (PStr ''cz'', PNone), (PStr ''fr'', PNone),
                        (PStr ''no'', PNone)]"
    by simp
  from extract_inner_group_present [OF h1 h2, of "PDict [(PStr ''Description'', PStr ''x'')]"]
  obtain out inner where
    "extract_inner (PDict [(PStr ''Description'', PStr ''x'')])
       (key_mappings_get PAGE_DATA_KEY_MAPPINGS ''galaxy'') = Inr out"
    "dict_getitem out ''no_of_tools'' = Inr (PDict inner)"
    "resolves_nothing (PDict [(PStr ''Description'', PStr ''x'')]) ?sub \<longrightarrow> inner = null_block ?sub"
    by blast
  with h3 h4 have "\<exists>out. extract_inner (PDict [(PStr ''Description'', PStr ''x'')])
            (key_mappings_get PAGE_DATA_KEY_MAPPINGS ''galaxy'') = Inr out \<and>
          dict_getitem out ''no_of_tools'' =
            Inr (PDict [(PStr ''eu'', PNone), (PStr ''org'', PNone), (PStr ''au'', PNone),
                        (PStr ''be'', PNone), (PStr ''cz'', PNone), (PStr ''fr'', PNone),
                        (PStr ''no'', PNone)])"
    by auto
  with h1 h2 show ?thesis by blast
qed

section \<open>Paths\<close>









section \<open>The source adapter and the folder loop\<close>






lemma truthy_items_shape:
  "items = [] \<or> items = [(k, v)] \<Longrightarrow>
   truthy_items items = (if items = [] \<or> \<not> truthy v then [] else [(k, v)])"
  by (auto simp: truthy_items_def)



text \<open>Each of the five file names ends in an extension that selects its parser: YAML
  for the first two kinds, JSON for the other three.\<close>

lemma pattern_cases:
  assumes "(f, k) \<in> set (file_patterns n)"
  obtains "f = ''bioconda_'' @ n @ ''.yaml''" and "k = ''bioconda''"
  | "f = n @ ''.biocontainers.yaml''" and "k = ''biocontainers''"
  | "f = n @ ''.biotools.json''" and "k = ''biotools''"
  | "f = n @ ''.bioschemas.jsonld''" and "k = ''bioschemas''"
  | "f = n @ ''.galaxy.json''" and "k = ''galaxy''"
proof -
  from assms have
    "(f, k) = (''bioconda_'' @ n @ ''.yaml'', ''bioconda'') \<or>
     (f, k) = (n @ ''.biocontainers.yaml'', ''biocontainers'') \<or>
     (f, k) = (n @ ''.biotools.json'', ''biotools'') \<or>
     (f, k) = (n @ ''.bioschemas.jsonld'', ''bioschemas'') \<or>
     (f, k) = (n @ ''.galaxy.json'', ''galaxy'')"
    by (simp only: file_patterns_def list.set insert_iff empty_iff simp_thms)
  then show thesis
    using that by (elim disjE) (simp_all only: prod.inject)
qed




text \<open>The three ways one iteration of the loop goes on to the next.\<close>

lemma process_loop_Cons_cases:
  assumes "process_loop w fp ((f, k) # pats) (c, fm, pm) = Inr st'"
  obtains
    (absent) "\<not> path_exists w (path_join fp f)"
      and "process_loop w fp pats (c, fm, pm) = Inr st'"
  | (skipped) "path_exists w (path_join fp f)"
      and "load_data w (path_join fp f) = Inr PNone"
      and "process_loop w fp pats (set_add c k, fm, pm) = Inr st'"
  | (extracted) data sd pd where "path_exists w (path_join fp f)"
      and "load_data w (path_join fp f) = Inr data" and "data \<noteq> PNone"
      and "extract_data k data SUMMARY_DATA_KEY_MAPPINGS = Inr sd"
      and "extract_data k data PAGE_DATA_KEY_MAPPINGS = Inr pd"
      and "process_loop w fp pats
             (set_add c k, dict_update fm (truthy_items sd), dict_update pm (truthy_items pd))
           = Inr st'"
  using assms by (auto simp: Let_def split: if_splits sum.splits)

lemma process_loop_contents:
  "process_loop w fp pats (c, fm, pm) = Inr (c', fm', pm') \<Longrightarrow>
   set c' = set c \<union> {k. \<exists>f. (f, k) \<in> set pats \<and> path_exists w (path_join fp f)} \<and>
   (distinct c \<longrightarrow> distinct c')"
proof (induction pats arbitrary: c fm pm)
  case Nil
  then show ?case by simp
next
  case (Cons pat pats)
  obtain f k where pat: "pat = (f, k)" by (cases pat)
  from Cons.prems [unfolded pat] show ?case
  proof (cases rule: process_loop_Cons_cases)
    case absent
    from Cons.IH [OF absent(2)] absent(1) pat show ?thesis by auto
  next
    case skipped
    from Cons.IH [OF skipped(3)] skipped(1) pat show ?thesis
      by (auto simp: set_add_def split: if_splits)
  next
    case (extracted data sd pd)
    from Cons.IH [OF extracted(6)] extracted(1) pat show ?thesis
      by (auto simp: set_add_def split: if_splits)
  qed
qed






section \<open>The folder aggregator\<close>


lemma process_files_nonempty:
  assumes "any_file_exists w fp (file_patterns (basename fp))"
    and "process_files_in_folder w fp = Inr (m, pm)"
  obtains c fm pgm where
    "process_loop w fp (file_patterns (basename fp)) ([], [], []) = Inr (c, fm, pgm)"
    and "m = PDict [(PStr ''tool_name'', PStr (basename fp)),
                    (PStr ''contents'', PList (map PStr c)),
                    (PStr ''fetched_metadata'', PDict fm)]"
    and "pm = PDict [(PStr ''tool_name'', PStr (basename fp)),
                     (PStr ''contents'', PList (map PStr c)),
                     (PStr ''page_metadata'', PDict pgm)]"
  using assms by (auto simp: process_files_in_folder_def Let_def split: sum.splits)



section \<open>The run driver\<close>







section \<open>Folders and runs\<close>

text \<open>The definitions that a run on a concrete folder unfolds.\<close>

lemmas run_defs = process_files_in_folder_def any_file_exists_def file_patterns_def
  basename_def path_join_def load_data_def splitext_ext_def set_add_def extract_data_def
  key_mappings_get_def SUMMARY_DATA_KEY_MAPPINGS_def PAGE_DATA_KEY_MAPPINGS_def
  dict_update_def truthy_items_def dict_get_def dict_get_default_def py_or_def
  world_of_files_def main_def dict_getitem_def Let_def

lemma null_biotools_run:
  "process_files_in_folder null_biotools ''content/data/foo'' =
     Inr (PDict [(PStr ''tool_name'', PStr ''foo''),
                 (PStr ''contents'', PList [PStr ''biotools'']),
                 (PStr ''fetched_metadata'', PDict [])],
          PDict [(PStr ''tool_name'', PStr ''foo''),
                 (PStr ''contents'', PList [PStr ''biotools'']),
                 (PStr ''page_metadata'', PDict [])])"
  by (simp add: null_biotools_def run_defs)





text \<open>
  C3 as stated fails. In the same folder the file exists and parses to \<^verbatim>\<open>None\<close>, so
  nothing is extracted under either table, and \<^verbatim>\<open>contents\<close> still holds \<^verbatim>\<open>biotools\<close>: the
  kind is added as soon as its file is seen to exist, before the file is parsed.
\<close>

theorem contents_counterexample:
  "\<exists>m pm. process_files_in_folder null_biotools ''content/data/foo'' = Inr (m, pm) \<and>
     py_getitem m ''contents'' = Inr (PList [PStr ''biotools'']) \<and>
     py_getitem m ''fetched_metadata'' = Inr (PDict []) \<and>
     py_getitem pm ''contents'' = Inr (PList [PStr ''biotools'']) \<and>
     py_getitem pm ''page_metadata'' = Inr (PDict [])"
  by (simp add: null_biotools_run dict_getitem_def)

text \<open>
  C3, amended. For every folder with at least one candidate file whose processing
  completes, \<^verbatim>\<open>contents\<close>, the same in both records, lists without repetition exactly
  the source kinds whose file exists in the folder, whatever the file parsed to.
\<close>

theorem contents_are_existing_kinds:
  assumes "process_files_in_folder w fp = Inr (m, pm)"
    and "any_file_exists w fp (file_patterns (basename fp))"
  shows "\<exists>c. py_getitem m ''contents'' = Inr (PList (map PStr c)) \<and>
             py_getitem pm ''contents'' = Inr (PList (map PStr c)) \<and>
             distinct c \<and>
             set c = {k. \<exists>f. (f, k) \<in> set (file_patterns (basename fp)) \<and>
                              path_exists w (path_join fp f)}"
proof -
  from assms(2,1) obtain c fm pgm where
    run: "process_loop w fp (file_patterns (basename fp)) ([], [], []) = Inr (c, fm, pgm)" and
    m: "m = PDict [(PStr ''tool_name'', PStr (basename fp)),
                   (PStr ''contents'', PList (map PStr c)),
                   (PStr ''fetched_metadata'', PDict fm)]" and
    pm: "pm = PDict [(PStr ''tool_name'', PStr (basename fp)),
                     (PStr ''contents'', PList (map PStr c)),
                     (PStr ''page_metadata'', PDict pgm)]"
    by (rule process_files_nonempty)
  from process_loop_contents [OF run] have
    "distinct c" and
    "set c = {k. \<exists>f. (f, k) \<in> set (file_patterns (basename fp)) \<and> path_exists w (path_join fp f)}"
    by simp_all
  moreover have "py_getitem m ''contents'' = Inr (PList (map PStr c))"
    and "py_getitem pm ''contents'' = Inr (PList (map PStr c))"
    by (simp_all add: m pm dict_getitem_def)
  ultimately show ?thesis by blast
qed

theorem contents_are_existing_kinds_witness:
  "any_file_exists null_biotools ''content/data/foo''
     (file_patterns (basename ''content/data/foo'')) \<and>
   (\<exists>m pm c. process_files_in_folder null_biotools ''content/data/foo'' = Inr (m, pm) \<and>
      py_getitem m ''contents'' = Inr (PList (map PStr c)) \<and>
      set c = {k. \<exists>f. (f, k) \<in> set (file_patterns (basename ''content/data/foo'')) \<and>
                       path_exists null_biotools (path_join ''content/data/foo'' f)})"
proof -
  have h: "any_file_exists null_biotools ''content/data/foo''
             (file_patterns (basename ''content/data/foo''))"
    by (simp add: null_biotools_def run_defs)
  from contents_are_existing_kinds [OF null_biotools_run h] h
  show ?thesis using null_biotools_run by blast
qed

text \<open>
  C7. Scenario A: the folder \<^verbatim>\<open>foo\<close> holds only \<^verbatim>\<open>foo.biotools.json\<close> with the stated
  content. \<^verbatim>\<open>contents\<close> is \<^verbatim>\<open>["biotools"]\<close>, and the \<^verbatim>\<open>biotools\<close> block of the summary
  record holds the five fields of the table; as a dict, whose equality does not look at
  the order of the items, it is the one the scenario expects.
\<close>

theorem scenario_A_summary:
  "(\<exists>m pm block.
      process_files_in_folder scenario_A ''content/data/foo'' = Inr (m, pm) \<and>
      py_getitem m ''tool_name'' = Inr (PStr ''foo'') \<and>
      py_getitem m ''contents'' = Inr (PList [PStr ''biotools'']) \<and>
      py_getitem m ''fetched_metadata'' = Inr (PDict [(PStr ''biotools'', PDict block)]) \<and>
      distinct (map fst block) \<and>
      map_of block = map_of [(PStr ''license'', PStr ''MIT''),
                             (PStr ''summary'', PStr ''x''),
                             (PStr ''version'', PStr ''1.0''),
                             (PStr ''addition_date'', PNone),
                             (PStr ''last_update_date'', PNone)])"
proof -
  have run: "process_files_in_folder scenario_A ''content/data/foo'' =
     Inr (PDict [(PStr ''tool_name'', PStr ''foo''),
                 (PStr ''contents'', PList [PStr ''biotools'']),
                 (PStr ''fetched_metadata'',
                  PDict [(PStr ''biotools'',
                          PDict [(PStr ''license'', PStr ''MIT''),
                                 (PStr ''summary'', PStr ''x''),
                                 (PStr ''addition_date'', PNone),
                                 (PStr ''last_update_date'', PNone),
                                 (PStr ''version'', PStr ''1.0'')])])],
          PDict [(PStr ''tool_name'', PStr ''foo''),
                 (PStr ''contents'', PList [PStr ''biotools'']),
                 (PStr ''page_metadata'',
                  PDict [(PStr ''biotools'',
                          PDict [(PStr ''id'', PNone), (PStr ''home'', PNone),
                                 (PStr ''license'', PStr ''MIT''),
                                 (PStr ''summary'', PStr ''x''),
                                 (PStr ''addition_date'', PNone),
                                 (PStr ''last_update_date'', PNone),
                                 (PStr ''tool_type'', PNone),
                                 (PStr ''version'', PStr ''1.0'')])])])"
    by (simp add: scenario_A_def run_defs)
  have same: "map_of [(PStr ''license'', PStr ''MIT''),
                      (PStr ''summary'', PStr ''x''),
                      (PStr ''addition_date'', PNone),
                      (PStr ''last_update_date'', PNone),
                      (PStr ''version'', PStr ''1.0'')] =
              map_of [(PStr ''license'', PStr ''MIT''),
                      (PStr ''summary'', PStr ''x''),
                      (PStr ''version'', PStr ''1.0''),
                      (PStr ''addition_date'', PNone),
                      (PStr ''last_update_date'', PNone)]"
    by (rule ext) simp
  show ?thesis
    unfolding run using same by (simp add: dict_getitem_def)
qed














text \<open>A scalar and the empty mapping hold no data for any table of the program: none
  of the tables has an empty path.\<close>

lemma traverse_keys_None: "traverse_keys PNone p = Inr PNone"
  by (cases p) simp_all

lemma traverse_keys_empty_dict: "p \<noteq> [] \<Longrightarrow> traverse_keys (PDict []) p = Inr PNone"
  by (cases p) (simp_all add: dict_get_def dict_get_default_def traverse_keys_None)

lemma unmapped_resolves_nothing:
  assumes "is_scalar d \<or> d = PDict []" and "[] \<notin> set (leaf_paths ms)"
  shows "resolves_nothing d ms"
proof -
  have "traverse_keys d p = Inr PNone" if "p \<in> set (leaf_paths ms)" for p
  proof -
    from that assms(2) have "p \<noteq> []" by auto
    with assms(1) show ?thesis
      by (auto simp: traverse_keys_stuck traverse_keys_empty_dict)
  qed
  then show ?thesis by (simp add: resolves_nothing_def list_all_iff)
qed

lemma tables_have_keys:
  assumes "(f, k) \<in> set (file_patterns n)"
  shows "[] \<notin> set (leaf_paths (key_mappings_get SUMMARY_DATA_KEY_MAPPINGS k))"
    and "[] \<notin> set (leaf_paths (key_mappings_get PAGE_DATA_KEY_MAPPINGS k))"
  using assms
  by (cases rule: pattern_cases;
      simp add: key_mappings_get_def SUMMARY_DATA_KEY_MAPPINGS_def PAGE_DATA_KEY_MAPPINGS_def)+





end
